theory Spec2Isabelle
  imports Main "HOL-Library.Word" "HOL-Library.Sublist" "HOL-Library.Char_ord"
begin

unbundle bit_operations_syntax

section \<open>The iPXE boot-script handler (package ipxe, file auto.go)\<close>

text \<open>
  The handler answers a network-boot client with an iPXE script chosen from the
  client's hardware record. This theory embeds \<^verbatim>\<open>HandlerFunc\<close>,
  \<^verbatim>\<open>customScriptFound\<close>, \<^verbatim>\<open>serveBootScript\<close>,
  \<^verbatim>\<open>defaultScript\<close> and \<^verbatim>\<open>customScript\<close> as functions
  that return the ordered list of effects the Go code performs (response writes, log lines,
  metric updates, the inventory lookup, span updates).
\<close>

subsection \<open>Data\<close>

type_synonym byte = "8 word"

text \<open>\<^verbatim>\<open>net.IP\<close> and \<^verbatim>\<open>net.HardwareAddr\<close> are byte slices; the nil
  slice is the empty list.\<close>

type_synonym IP = "byte list"
type_synonym HardwareAddr = "byte list"

text \<open>Error values. \<open>New\<close>, \<open>Errorf\<close> and \<open>Wrap\<close> are the three constructors
  the file uses (\<^verbatim>\<open>errors.New\<close>, \<^verbatim>\<open>errors.Errorf\<close> and
  \<^verbatim>\<open>fmt.Errorf\<close> with their format string and arguments kept apart,
  \<^verbatim>\<open>errors.Wrap\<close>); \<open>External\<close> is an error handed back by a collaborator
  (the standard library, the finder, the response writer); \<open>RenderError\<close> is the
  renderer's failure.\<close>

datatype error =
    External string
  | RenderError
  | New string
  | Errorf string "string list"
  | Wrap error string

text \<open>\<^verbatim>\<open>url.URL\<close>: the scheme, and the remainder of the parsed text.\<close>

record URL =
  Scheme :: string
  Rest :: string

text \<open>Modelled from the spec: the interfaces \<^verbatim>\<open>client.Hardware\<close> and
  \<^verbatim>\<open>client.Discoverer\<close> and the struct behind \<^verbatim>\<open>Instance()\<close> are declared in
  package client, outside auto.go. The records have the methods auto.go calls, with the
  argument and result types of the interface description of the specification (section 6):
  the facility code a string, the VLAN identifier an integer, the instance a value with an
  identifier that may be absent.\<close>

record Hardware =
  HardwareAllowPXE :: "HardwareAddr \<Rightarrow> bool"
  HardwareArch :: "HardwareAddr \<Rightarrow> string"
  HardwareFacilityCode :: string
  GetVLANID :: "HardwareAddr \<Rightarrow> int"
  IPXEURL :: "HardwareAddr \<Rightarrow> string"
  IPXEScript :: "HardwareAddr \<Rightarrow> string"

record Instance =
  ID :: string

text \<open>\<^verbatim>\<open>Instance()\<close> returns a pointer, which auto.go tests for nil.\<close>

record Discoverer =
  GetMAC :: "IP \<Rightarrow> HardwareAddr"
  Hardware :: Hardware
  Instance :: "Instance option"

text \<open>The span taken from the request context: its sampling flag and trace identifier.\<close>

record Span =
  IsSampled :: bool
  SpanTraceID :: string

text \<open>The struct \<^verbatim>\<open>Hook\<close> filled in by \<^verbatim>\<open>defaultScript\<close> (lines 149-164),
  and the struct \<^verbatim>\<open>Custom\<close> filled in by \<^verbatim>\<open>customScript\<close> (lines 180 and 184):
  the fields are the ones the two struct literals and line 163 assign, with the types of the
  values assigned. A field that a struct literal leaves out has Go's zero value. Then the
  argument of the renderer, which takes either struct, and the two template names.\<close>

record Hook =
  Arch :: string
  Console :: string
  DownloadURL :: string
  HookExtraKernelParams :: "string list"
  Facility :: string
  HWAddr :: string
  SyslogHost :: string
  TinkerbellTLS :: bool
  TinkGRPCAuthority :: string
  VLANID :: int
  WorkerID :: string
  TraceID :: string

record Custom =
  Chain :: "URL option"
  Script :: string

datatype tmpl_data = HookCtx Hook | CustomCtx Custom

datatype template = HookScript | CustomScript

text \<open>The struct \<^verbatim>\<open>Handler\<close>. The logger is an effect (see \<open>event\<close>). The finder's
  \<^verbatim>\<open>ByIP\<close> returns an error, or a discoverer that may be the nil interface.\<close>

record Handler =
  Finder :: "IP \<Rightarrow> error + Discoverer option"
  OSIEURL :: string
  ExtraKernelParams :: "string list"
  PublicSyslogFQDN :: string
  TinkServerTLS :: bool
  TinkServerGRPCAddr :: string

text \<open>The request: its URL path, the peer address, and the span of its context.\<close>

record Request =
  URL_Path :: string
  RemoteAddr :: string
  Ctx_Span :: Span

text \<open>The response writer: what \<^verbatim>\<open>Write\<close> returns when it is called.\<close>

record ResponseWriter =
  Write_err :: "error option"

text \<open>Functions that auto.go calls and does not define: from the standard library
  \<^verbatim>\<open>path.Base\<close>, \<^verbatim>\<open>net.SplitHostPort\<close>, \<^verbatim>\<open>net.ParseIP\<close> (nil when the
  text is no address), \<^verbatim>\<open>IP.String\<close>, \<^verbatim>\<open>HardwareAddr.String\<close> and
  \<^verbatim>\<open>url.Parse\<close>; from another file of package ipxe the renderer
  \<^verbatim>\<open>GenerateTemplate\<close>. The functions of auto.go take them as parameters, so what is
  proved of auto.go holds for every behaviour of these functions.\<close>

record Imports =
  path_Base :: "string \<Rightarrow> string"
  SplitHostPort :: "string \<Rightarrow> error + string \<times> string"
  ParseIP :: "string \<Rightarrow> IP"
  IP_String :: "IP \<Rightarrow> string"
  HardwareAddr_String :: "HardwareAddr \<Rightarrow> string"
  url_Parse :: "string \<Rightarrow> error + URL"
  GenerateTemplate :: "tmpl_data \<Rightarrow> template \<Rightarrow> error + string"

subsection \<open>Effects\<close>

text \<open>One constructor for each effect of the file, in the order the code performs them.
  A log line carries its message and its key/value pairs; \<open>Panic\<close> is the nil dereference
  of a nil discoverer.\<close>

datatype event =
    Info string "(string \<times> string) list"
  | Error error string "(string \<times> string) list"
  | JobsTotal_Inc
  | JobsInProgress_Inc
  | JobsInProgress_Dec
  | NewTimer
  | ObserveDuration
  | ByIP IP
  | WriteHeader nat
  | Write string
  | SetAttributes string string
  | SetStatus_Error error
  | Panic

definition StatusNotFound :: nat where
  "StatusNotFound = 404"

definition StatusInternalServerError :: nat where
  "StatusInternalServerError = 500"

definition StatusOK :: nat where
  "StatusOK = 200"

text \<open>What the client sees: the status is the one of the first \<^verbatim>\<open>WriteHeader\<close>, or
  200 when the body is written (or the handler returns) without one; the body is what
  \<^verbatim>\<open>Write\<close> was given.\<close>

fun status :: "event list \<Rightarrow> nat" where
  "status [] = StatusOK"
| "status (WriteHeader c # es) = c"
| "status (Write s # es) = StatusOK"
| "status (e # es) = status es"

fun written :: "event list \<Rightarrow> string list" where
  "written [] = []"
| "written (Write s # es) = s # written es"
| "written (e # es) = written es"

fun lookups :: "event list \<Rightarrow> IP list" where
  "lookups [] = []"
| "lookups (ByIP ip # es) = ip # lookups es"
| "lookups (e # es) = lookups es"

fun is_metric :: "event \<Rightarrow> bool" where
  "is_metric JobsTotal_Inc = True"
| "is_metric JobsInProgress_Inc = True"
| "is_metric JobsInProgress_Dec = True"
| "is_metric NewTimer = True"
| "is_metric ObserveDuration = True"
| "is_metric e = False"

subsection \<open>The functions of auto.go\<close>

text \<open>\<^verbatim>\<open>customScriptFound\<close> (lines 80-87).\<close>

definition customScriptFound :: "Imports \<Rightarrow> Discoverer option \<Rightarrow> string \<Rightarrow> bool" where
  "customScriptFound P hw ip =
     (case hw of
        None \<Rightarrow> False
      | Some d \<Rightarrow>
          (let mac = GetMAC d (ParseIP P ip)
           in IPXEURL (Hardware d) mac \<noteq> [] \<or> IPXEScript (Hardware d) mac \<noteq> []))"

text \<open>The value \<^verbatim>\<open>auto\<close> built by \<^verbatim>\<open>defaultScript\<close> (lines 139-164).\<close>

definition defaultHook :: "Imports \<Rightarrow> Handler \<Rightarrow> Span \<Rightarrow> Discoverer \<Rightarrow> string \<Rightarrow> Hook" where
  "defaultHook P h span hw ip =
     (let mac = GetMAC hw (ParseIP P ip);
          arch = HardwareArch (Hardware hw) mac;
          arch = (if arch = [] then ''x86_64'' else arch);
          wID = HardwareAddr_String P mac;
          wID = (case Instance hw of
                   None \<Rightarrow> wID
                 | Some i \<Rightarrow> if ID i \<noteq> [] then ID i else wID);
          auto = \<lparr> Arch = arch,
                   Console = [],
                   DownloadURL = OSIEURL h,
                   HookExtraKernelParams = ExtraKernelParams h,
                   Facility = HardwareFacilityCode (Hardware hw),
                   HWAddr = HardwareAddr_String P mac,
                   SyslogHost = PublicSyslogFQDN h,
                   TinkerbellTLS = TinkServerTLS h,
                   TinkGRPCAuthority = TinkServerGRPCAddr h,
                   VLANID = GetVLANID (Hardware hw) mac,
                   WorkerID = wID,
                   TraceID = [] \<rparr>
      in if IsSampled span then auto\<lparr>TraceID := SpanTraceID span\<rparr> else auto)"

text \<open>\<^verbatim>\<open>defaultScript\<close> (lines 138-167).\<close>

definition defaultScript :: "Imports \<Rightarrow> Handler \<Rightarrow> Span \<Rightarrow> Discoverer \<Rightarrow> string \<Rightarrow> error + string" where
  "defaultScript P h span hw ip =
     GenerateTemplate P (HookCtx (defaultHook P h span hw ip)) HookScript"

text \<open>\<^verbatim>\<open>customScript\<close> (lines 170-189).\<close>

definition customScript :: "Imports \<Rightarrow> Discoverer \<Rightarrow> string \<Rightarrow> error + string" where
  "customScript P hw ip =
     (let mac = GetMAC hw (ParseIP P ip);
          chain = IPXEURL (Hardware hw) mac
      in if chain \<noteq> [] then
           (case url_Parse P chain of
              Inl err \<Rightarrow> Inl (Wrap err ''invalid custom chain URL'')
            | Inr u \<Rightarrow>
                if Scheme u \<noteq> ''http'' \<and> Scheme u \<noteq> ''https''
                then Inl (Errorf ''invalid URL scheme: %v'' [Scheme u])
                else GenerateTemplate P (CustomCtx \<lparr> Chain = Some u, Script = [] \<rparr>) CustomScript)
         else
           (let script = IPXEScript (Hardware hw) mac
            in if script \<noteq> [] then
                 GenerateTemplate P (CustomCtx \<lparr> Chain = None, Script = script \<rparr>) CustomScript
               else Inl (New ''no custom script or chain defined in the hardware data'')))"

text \<open>The end of \<^verbatim>\<open>serveBootScript\<close> (lines 128-135): the span attribute and the write.\<close>

definition writeScript :: "ResponseWriter \<Rightarrow> string \<Rightarrow> string \<Rightarrow> event list" where
  "writeScript w name script =
     SetAttributes ''ipxe-script'' script # Write script #
     (case Write_err w of
        None \<Rightarrow> []
      | Some err \<Rightarrow>
          [Error (Wrap err ''unable to write boot script'') ''unable to write boot script''
             [(''script'', name)],
           SetStatus_Error err])"

text \<open>The failure branches of the switch (lines 100-107 and 111-118).\<close>

definition scriptError :: "error \<Rightarrow> string \<Rightarrow> string \<Rightarrow> event list" where
  "scriptError err msg name =
     [WriteHeader StatusInternalServerError,
      Error (Wrap err msg) ''error'' [(''script'', name)],
      SetStatus_Error (Wrap err msg)]"

text \<open>The name the switch of \<^verbatim>\<open>serveBootScript\<close> sees (lines 94-96).\<close>

definition switchName :: "Imports \<Rightarrow> Discoverer option \<Rightarrow> string \<Rightarrow> string \<Rightarrow> string" where
  "switchName P hw ip name = (if customScriptFound P hw ip then ''custom.ipxe'' else name)"

text \<open>\<^verbatim>\<open>serveBootScript\<close> (lines 89-136). Both script functions dereference the
  discoverer in their first statement, which panics on nil.\<close>

definition serveBootScript ::
  "Imports \<Rightarrow> Handler \<Rightarrow> Span \<Rightarrow> ResponseWriter \<Rightarrow> string \<Rightarrow> string \<Rightarrow> Discoverer option \<Rightarrow> event list" where
  "serveBootScript P h span w name0 ip hw =
     SetAttributes ''boots.script_name'' name0 #
     (let name = switchName P hw ip name0
      in if name = ''auto.ipxe'' then
           (case hw of
              None \<Rightarrow> [Panic]
            | Some d \<Rightarrow>
                (case defaultScript P h span d ip of
                   Inl err \<Rightarrow> scriptError err ''error with default ipxe script'' name
                 | Inr s \<Rightarrow> writeScript w name s))
         else if name = ''custom.ipxe'' then
           (case hw of
              None \<Rightarrow> [Panic]
            | Some d \<Rightarrow>
                (case customScript P d ip of
                   Inl err \<Rightarrow> scriptError err ''error with custom ipxe script'' name
                 | Inr cs \<Rightarrow> writeScript w name cs))
         else
           [WriteHeader StatusNotFound,
            Error (Errorf ''boot script %q not found'' [name]) ''error'' [(''script'', name)],
            SetStatus_Error (Errorf ''boot script %q not found'' [name])])"

text \<open>The part of \<^verbatim>\<open>HandlerFunc\<close> after the metrics are started (lines 46-76).\<close>

definition serveAuto :: "Imports \<Rightarrow> Handler \<Rightarrow> ResponseWriter \<Rightarrow> Request \<Rightarrow> event list" where
  "serveAuto P h w r =
     (case SplitHostPort P (RemoteAddr r) of
        Inl err \<Rightarrow>
          [WriteHeader StatusInternalServerError,
           Error (Wrap err ''splitting host:ip'') ''error parsing client address''
             [(''client'', RemoteAddr r)]]
      | Inr (host, port) \<Rightarrow>
          (let ip = ParseIP P host
           in ByIP ip #
              (case Finder h ip of
                 Inl err \<Rightarrow>
                   [WriteHeader StatusNotFound,
                    Error err ''no job found for client address'' [(''client'', RemoteAddr r)]]
               | Inr None \<Rightarrow> [Panic]
               | Inr (Some hw) \<Rightarrow>
                   if \<not> HardwareAllowPXE (Hardware hw) (GetMAC hw ip) then
                     [WriteHeader StatusNotFound,
                      Info ''the hardware data for this machine, or lack there of, does not allow it to pxe; allow_pxe: false''
                        [(''client'', RemoteAddr r)]]
                   else
                     serveBootScript P h (Ctx_Span r) w (path_Base P (URL_Path r))
                       (IP_String P ip) (Some hw))))"

text \<open>\<^verbatim>\<open>HandlerFunc\<close> (lines 31-78). The two deferred calls run when the function
  returns, the later one first.\<close>

definition HandlerFunc :: "Imports \<Rightarrow> Handler \<Rightarrow> ResponseWriter \<Rightarrow> Request \<Rightarrow> event list" where
  "HandlerFunc P h w r =
     (if path_Base P (URL_Path r) \<noteq> ''auto.ipxe'' then
        [Info ''not found'' [(''path'', URL_Path r)], WriteHeader StatusNotFound]
      else
        [JobsTotal_Inc, JobsInProgress_Inc, NewTimer]
        @ serveAuto P h w r
        @ [ObserveDuration, JobsInProgress_Dec])"

subsection \<open>The renderer\<close>

text \<open>Modelled from the spec: \<^verbatim>\<open>GenerateTemplate\<close> and the template texts
  \<^verbatim>\<open>HookScript\<close> and \<^verbatim>\<open>CustomScript\<close> belong to package ipxe but are not in
  auto.go. The specification describes \<^verbatim>\<open>render(context, templateName)\<close>: the
  templates are fixed named texts, one for the default flow and one for the custom flow;
  rendering substitutes the fields of the context into the template and fails with
  \<open>RenderError\<close> when the template refers to a field the supplied context type does not
  have; the output is the script text with no additional framing; in the custom flow a
  chain URL is embedded in the output, and without a chain URL the literal script body is
  used verbatim. The text of the default template and the text around an embedded chain URL
  are not given, so they are the parameters \<open>hookText\<close> and \<open>chainText\<close>.\<close>

definition render :: "(Hook \<Rightarrow> string) \<Rightarrow> (URL \<Rightarrow> string) \<Rightarrow> tmpl_data \<Rightarrow> template \<Rightarrow> error + string" where
  "render hookText chainText d t =
     (case (d, t) of
        (HookCtx c, HookScript) \<Rightarrow> Inr (hookText c)
      | (CustomCtx c, CustomScript) \<Rightarrow>
          (case Chain c of Some u \<Rightarrow> Inr (chainText u) | None \<Rightarrow> Inr (Script c))
      | (HookCtx c, CustomScript) \<Rightarrow> Inl RenderError
      | (CustomCtx c, HookScript) \<Rightarrow> Inl RenderError)"

subsection \<open>An instance of the imported functions\<close>

text \<open>To run the handler on concrete requests, the imported functions are given here as
  Go's standard library computes them on the inputs of the examples: \<^verbatim>\<open>path.Base\<close>,
  \<^verbatim>\<open>net.SplitHostPort\<close> and \<^verbatim>\<open>HardwareAddr.String\<close> in full; \<^verbatim>\<open>net.ParseIP\<close>
  and \<^verbatim>\<open>IP.String\<close> for dotted-quad IPv4 text and the nil address (text in IPv6
  notation is outside this instance and is treated as unparseable, and an address that is
  neither nil nor IPv4 is printed as a question mark); \<^verbatim>\<open>url.Parse\<close> as far as the
  scheme (the rest of the text is kept unparsed).\<close>

fun IndexByte :: "string \<Rightarrow> char \<Rightarrow> nat option" where
  "IndexByte [] c = None"
| "IndexByte (x # xs) c = (if x = c then Some 0 else map_option Suc (IndexByte xs c))"

definition LastIndexByte :: "string \<Rightarrow> char \<Rightarrow> nat option" where
  "LastIndexByte s c = map_option (\<lambda>k. length s - 1 - k) (IndexByte (rev s) c)"

definition go_path_Base :: "string \<Rightarrow> string" where
  "go_path_Base p =
     (if p = [] then ''.''
      else
        (let p = rev (dropWhile (\<lambda>c. c = CHR ''/'') (rev p));
             p = (case LastIndexByte p (CHR ''/'') of None \<Rightarrow> p | Some i \<Rightarrow> drop (i + 1) p)
         in if p = [] then ''/'' else p))"

definition go_SplitHostPort :: "string \<Rightarrow> error + string \<times> string" where
  "go_SplitHostPort hostport =
     (let missingPort = External ''missing port in address'';
          tooManyColons = External ''too many colons in address'';
          finish = (\<lambda>host j k i.
            if IndexByte (drop j hostport) (CHR ''['') \<noteq> None
            then Inl (External ''unexpected '[' in address'')
            else if IndexByte (drop k hostport) (CHR '']'') \<noteq> None
            then Inl (External ''unexpected ']' in address'')
            else Inr (host, drop (i + 1) hostport))
      in case LastIndexByte hostport (CHR '':'') of
           None \<Rightarrow> Inl missingPort
         | Some i \<Rightarrow>
             if take 1 hostport = ''[''
             then (case IndexByte hostport (CHR '']'') of
                     None \<Rightarrow> Inl (External ''missing ']' in address'')
                   | Some e \<Rightarrow>
                       if e + 1 = length hostport then Inl missingPort
                       else if e + 1 = i then finish (take (e - 1) (drop 1 hostport)) 1 (e + 1) i
                       else if take 1 (drop (e + 1) hostport) = '':'' then Inl tooManyColons
                       else Inl missingPort)
             else
               (let host = take i hostport
                in if IndexByte host (CHR '':'') \<noteq> None then Inl tooManyColons
                   else finish host 0 0 i))"

fun splitOn :: "char \<Rightarrow> string \<Rightarrow> string list" where
  "splitOn c [] = [[]]"
| "splitOn c (x # xs) =
     (if x = c then [] # splitOn c xs
      else (case splitOn c xs of [] \<Rightarrow> [[x]] | f # fs \<Rightarrow> (x # f) # fs))"

definition isDigit :: "char \<Rightarrow> bool" where
  "isDigit c = (CHR ''0'' \<le> c \<and> c \<le> CHR ''9'')"

definition atoi :: "string \<Rightarrow> nat" where
  "atoi s = foldl (\<lambda>n c. n * 10 + (of_char c - 48)) 0 s"

text \<open>One field of a dotted quad: at least one digit, digits only, no leading zero, at
  most 255.\<close>

definition parseOctet :: "string \<Rightarrow> byte option" where
  "parseOctet f =
     (if f \<noteq> [] \<and> list_all isDigit f \<and> (length f = 1 \<or> hd f \<noteq> CHR ''0'')
         \<and> atoi f \<le> 255
      then Some (of_nat (atoi f)) else None)"

definition v4InV6Prefix :: "byte list" where
  "v4InV6Prefix = [0, 0, 0, 0, 0, 0, 0, 0, 0, 0, 0xff, 0xff]"

definition go_ParseIP :: "string \<Rightarrow> IP" where
  "go_ParseIP s =
     (case map parseOctet (splitOn (CHR ''.'') s) of
        [Some a, Some b, Some c, Some d] \<Rightarrow> v4InV6Prefix @ [a, b, c, d]
      | _ \<Rightarrow> [])"

fun digits :: "nat \<Rightarrow> nat \<Rightarrow> string" where
  "digits 0 n = []"
| "digits (Suc k) n =
     (if n < 10 then [char_of (48 + n)] else digits k (n div 10) @ [char_of (48 + n mod 10)])"

definition itoa :: "byte \<Rightarrow> string" where
  "itoa b = digits 3 (unat b)"

definition go_IP_String :: "IP \<Rightarrow> string" where
  "go_IP_String ip =
     (if length ip = 0 then ''<nil>''
      else if length ip = 4 then
        itoa (ip ! 0) @ ''.'' @ itoa (ip ! 1) @ ''.'' @ itoa (ip ! 2) @ ''.'' @ itoa (ip ! 3)
      else if length ip = 16 \<and> take 12 ip = v4InV6Prefix then
        itoa (ip ! 12) @ ''.'' @ itoa (ip ! 13) @ ''.'' @ itoa (ip ! 14) @ ''.'' @ itoa (ip ! 15)
      else ''?'')"

definition hexDigit :: "byte \<Rightarrow> char" where
  "hexDigit b = ''0123456789abcdef'' ! unat (b AND 0xF)"

fun hexBytes :: "byte list \<Rightarrow> string" where
  "hexBytes [] = []"
| "hexBytes [b] = [hexDigit (drop_bit 4 b), hexDigit (b AND 0xF)]"
| "hexBytes (b # bs) = hexDigit (drop_bit 4 b) # hexDigit (b AND 0xF) # CHR '':'' # hexBytes bs"

definition go_HardwareAddr_String :: "HardwareAddr \<Rightarrow> string" where
  "go_HardwareAddr_String a = hexBytes a"

definition isLetter :: "char \<Rightarrow> bool" where
  "isLetter c = ((CHR ''a'' \<le> c \<and> c \<le> CHR ''z'') \<or> (CHR ''A'' \<le> c \<and> c \<le> CHR ''Z''))"

definition toLower :: "char \<Rightarrow> char" where
  "toLower c = (if CHR ''A'' \<le> c \<and> c \<le> CHR ''Z'' then char_of (of_char c + (32::nat)) else c)"

text \<open>The scheme scan of \<^verbatim>\<open>url.Parse\<close>: letters anywhere, digits and \<^verbatim>\<open>+-.\<close>
  after the first character, ended by a colon; a colon in first position is an error, any
  other character means there is no scheme.\<close>

fun getScheme :: "nat \<Rightarrow> string \<Rightarrow> string \<Rightarrow> error + string \<times> string" where
  "getScheme i whole [] = Inr ([], whole)"
| "getScheme i whole (c # cs) =
     (if isLetter c then getScheme (Suc i) whole cs
      else if isDigit c \<or> c = CHR ''+'' \<or> c = CHR ''-'' \<or> c = CHR ''.'' then
        (if i = 0 then Inr ([], whole) else getScheme (Suc i) whole cs)
      else if c = CHR '':'' then
        (if i = 0 then Inl (External ''missing protocol scheme'')
         else Inr (take i whole, cs))
      else Inr ([], whole))"

definition go_url_Parse :: "string \<Rightarrow> error + URL" where
  "go_url_Parse rawURL =
     (case getScheme 0 rawURL rawURL of
        Inl err \<Rightarrow> Inl (Wrap err ''parse'')
      | Inr (scheme, rest) \<Rightarrow> Inr \<lparr> Scheme = map toLower scheme, Rest = rest \<rparr>)"

text \<open>The instance, with the renderer of the previous subsection: the default template
  prints the architecture and the worker identifier, the custom template chains to the URL.\<close>

definition exHookText :: "Hook \<Rightarrow> string" where
  "exHookText c = ''#!ipxe arch='' @ Arch c @ '' worker_id='' @ WorkerID c"

definition exChainText :: "URL \<Rightarrow> string" where
  "exChainText u = ''#!ipxe chain '' @ Scheme u @ '':'' @ Rest u"

definition go :: Imports where
  "go = \<lparr> path_Base = go_path_Base,
          SplitHostPort = go_SplitHostPort,
          ParseIP = go_ParseIP,
          IP_String = go_IP_String,
          HardwareAddr_String = go_HardwareAddr_String,
          url_Parse = go_url_Parse,
          GenerateTemplate = render exHookText exChainText \<rparr>"

subsection \<open>An example inventory\<close>

text \<open>One machine, as in the scenarios of the specification: the client \<^verbatim>\<open>10.0.0.5\<close> has the
  interface \<^verbatim>\<open>aa:bb:cc:dd:ee:ff\<close>. The allow flag, the architecture, the custom chain URL,
  the custom script and the instance are the arguments.\<close>

definition exIP :: IP where
  "exIP = v4InV6Prefix @ [10, 0, 0, 5]"

definition exMAC :: HardwareAddr where
  "exMAC = [0xaa, 0xbb, 0xcc, 0xdd, 0xee, 0xff]"

definition exHardware :: "bool \<Rightarrow> string \<Rightarrow> string \<Rightarrow> string \<Rightarrow> Hardware" where
  "exHardware allow arch chain script =
     \<lparr> HardwareAllowPXE = (\<lambda>mac. mac = exMAC \<and> allow),
       HardwareArch = (\<lambda>mac. if mac = exMAC then arch else []),
       HardwareFacilityCode = ''lab1'',
       GetVLANID = (\<lambda>mac. 0),
       IPXEURL = (\<lambda>mac. if mac = exMAC then chain else []),
       IPXEScript = (\<lambda>mac. if mac = exMAC then script else []) \<rparr>"

definition exDiscoverer :: "Hardware \<Rightarrow> Instance option \<Rightarrow> Discoverer" where
  "exDiscoverer hardware inst =
     \<lparr> GetMAC = (\<lambda>ip. if ip = exIP then exMAC else []),
       Hardware = hardware,
       Instance = inst \<rparr>"

text \<open>A finder that knows the one machine, and a finder that knows none.\<close>

definition exHandler :: "Discoverer \<Rightarrow> Handler" where
  "exHandler hw =
     \<lparr> Finder = (\<lambda>ip. if ip = exIP then Inr (Some hw) else Inl (External ''no hardware found'')),
       OSIEURL = ''http://osie.example/current'',
       ExtraKernelParams = [],
       PublicSyslogFQDN = ''syslog.example'',
       TinkServerTLS = False,
       TinkServerGRPCAddr = ''tink.example:42113'' \<rparr>"

definition emptyHandler :: Handler where
  "emptyHandler =
     \<lparr> Finder = (\<lambda>ip. Inl (External ''no hardware found'')),
       OSIEURL = ''http://osie.example/current'',
       ExtraKernelParams = [],
       PublicSyslogFQDN = ''syslog.example'',
       TinkServerTLS = False,
       TinkServerGRPCAddr = ''tink.example:42113'' \<rparr>"

definition exSpan :: Span where
  "exSpan = \<lparr> IsSampled = False, SpanTraceID = [] \<rparr>"

definition exRequest :: "string \<Rightarrow> string \<Rightarrow> Request" where
  "exRequest p addr = \<lparr> URL_Path = p, RemoteAddr = addr, Ctx_Span = exSpan \<rparr>"

definition exWriter :: ResponseWriter where
  "exWriter = \<lparr> Write_err = None \<rparr>"

text \<open>The machines of the examples: one with no custom field and an instance without
  identifier; one with a custom script body only; one whose netboot flag is off although both
  custom fields are set; and three with a chain URL next to a script body (an accepted
  scheme, a refused scheme, text that does not parse).\<close>

definition exScript :: string where
  "exScript = ''#!ipxe'' @ [CHR 0x0A] @ ''exit''"

definition plainMachine :: Discoverer where
  "plainMachine = exDiscoverer (exHardware True [] [] []) (Some \<lparr> ID = [] \<rparr>)"

definition scriptedMachine :: Discoverer where
  "scriptedMachine =
     exDiscoverer (exHardware True ''aarch64'' [] exScript) (Some \<lparr> ID = ''worker-7'' \<rparr>)"

definition lockedMachine :: Discoverer where
  "lockedMachine =
     exDiscoverer (exHardware False [] ''http://boot.example/menu.ipxe'' exScript) None"

definition chainMachine :: Discoverer where
  "chainMachine =
     exDiscoverer (exHardware True [] ''https://boot.example/menu.ipxe'' exScript) None"

definition ftpMachine :: Discoverer where
  "ftpMachine = exDiscoverer (exHardware True [] ''ftp://boot.example/menu.ipxe'' exScript) None"

definition brokenChainMachine :: Discoverer where
  "brokenChainMachine = exDiscoverer (exHardware True [] '':menu.ipxe'' exScript) None"

text \<open>Requests: the entrypoint from the known client, from a peer whose host is no address,
  and from a peer address without a port.\<close>

definition exRequestAuto :: Request where
  "exRequestAuto = exRequest ''/auto.ipxe'' ''10.0.0.5:4711''"

definition exRequestBogus :: Request where
  "exRequestBogus = exRequest ''/auto.ipxe'' ''bogus:80''"

definition exRequestNoPort :: Request where
  "exRequestNoPort = exRequest ''/auto.ipxe'' ''10.0.0.5''"

text \<open>An inventory that answers every address, the nil address included, with one machine
  that is allowed to netboot and has a custom script body.\<close>

definition anyMachine :: Discoverer where
  "anyMachine =
     \<lparr> GetMAC = (\<lambda>ip. exMAC),
       Hardware = exHardware True [] [] exScript,
       Instance = None \<rparr>"

definition catchAllHandler :: Handler where
  "catchAllHandler =
     \<lparr> Finder = (\<lambda>ip. Inr (Some anyMachine)),
       OSIEURL = ''http://osie.example/current'',
       ExtraKernelParams = [],
       PublicSyslogFQDN = ''syslog.example'',
       TinkServerTLS = False,
       TinkServerGRPCAddr = ''tink.example:42113'' \<rparr>"

text \<open>Log lines among the effects.\<close>

fun is_log :: "event \<Rightarrow> bool" where
  "is_log (Info m kv) = True"
| "is_log (Error e m kv) = True"
| "is_log e = False"

section \<open>Properties\<close>

subsection \<open>Reading a trace\<close>

lemma written_append: "written (xs @ ys) = written xs @ written ys"
  by (induction xs rule: written.induct) simp_all

lemma lookups_append: "lookups (xs @ ys) = lookups xs @ lookups ys"
  by (induction xs rule: lookups.induct) simp_all

lemma status_deferred: "status (xs @ [ObserveDuration, JobsInProgress_Dec]) = status xs"
  by (induction xs rule: status.induct) simp_all

lemma scriptError_facts:
  "status (scriptError err msg name) = StatusInternalServerError"
  "written (scriptError err msg name) = []"
  "lookups (scriptError err msg name) = []"
  by (simp_all add: scriptError_def)

lemma writeScript_facts:
  "status (writeScript w name s) = StatusOK"
  "written (writeScript w name s) = [s]"
  "lookups (writeScript w name s) = []"
  by (simp_all add: writeScript_def split: option.splits)

lemma lookups_serveBootScript: "lookups (serveBootScript P h span w name ip hw) = []"
  by (simp add: serveBootScript_def Let_def scriptError_facts writeScript_facts
      split: option.splits sum.splits)

subsection \<open>The handler around the gate\<close>

lemma HandlerFunc_auto:
  "path_Base P (URL_Path r) = ''auto.ipxe'' \<Longrightarrow>
   HandlerFunc P h w r =
     [JobsTotal_Inc, JobsInProgress_Inc, NewTimer] @ serveAuto P h w r
     @ [ObserveDuration, JobsInProgress_Dec]"
  by (simp add: HandlerFunc_def)

lemma HandlerFunc_auto_facts:
  assumes "path_Base P (URL_Path r) = ''auto.ipxe''"
  shows "status (HandlerFunc P h w r) = status (serveAuto P h w r)"
    and "written (HandlerFunc P h w r) = written (serveAuto P h w r)"
    and "lookups (HandlerFunc P h w r) = lookups (serveAuto P h w r)"
  using status_deferred [of "serveAuto P h w r"]
  by (simp_all add: HandlerFunc_auto [OF assms] written_append lookups_append)

lemma serveAuto_authorized:
  assumes "SplitHostPort P (RemoteAddr r) = Inr (host, port)"
    and "Finder h (ParseIP P host) = Inr (Some hw)"
    and "HardwareAllowPXE (Hardware hw) (GetMAC hw (ParseIP P host))"
  shows "serveAuto P h w r =
     ByIP (ParseIP P host) #
     serveBootScript P h (Ctx_Span r) w (path_Base P (URL_Path r))
       (IP_String P (ParseIP P host)) (Some hw)"
  using assms by (simp add: serveAuto_def Let_def)

lemma serveBootScript_custom_error:
  assumes "customScriptFound P (Some hw) ip" and "customScript P hw ip = Inl e"
  shows "serveBootScript P h span w name ip (Some hw) =
     [SetAttributes ''boots.script_name'' name,
      WriteHeader StatusInternalServerError,
      Error (Wrap e ''error with custom ipxe script'') ''error'' [(''script'', ''custom.ipxe'')],
      SetStatus_Error (Wrap e ''error with custom ipxe script'')]"
  using assms by (simp add: serveBootScript_def switchName_def scriptError_def)

subsection \<open>The examples, evaluated\<close>

lemma ex_name: "path_Base go (URL_Path exRequestAuto) = ''auto.ipxe''"
  by code_simp

lemma ex_split: "SplitHostPort go (RemoteAddr exRequestAuto) = Inr (''10.0.0.5'', ''4711'')"
  by code_simp

lemma ex_ip: "ParseIP go ''10.0.0.5'' = exIP"
  by code_simp

lemma ex_ip_string: "IP_String go exIP = ''10.0.0.5''"
  by code_simp

lemma ex_found: "Finder (exHandler hw) (ParseIP go ''10.0.0.5'') = Inr (Some hw)"
  by (simp add: ex_ip exHandler_def)

lemma ex_renderer: "GenerateTemplate go = render exHookText exChainText"
  by (simp add: go_def)

subsection \<open>The authorization gate\<close>

text \<open>C1: a request for the entrypoint \<^verbatim>\<open>auto.ipxe\<close> whose peer address yields a host, and
  for which the lookup by the client address returns an error (no record) or returns a record
  whose allow flag is false for the resolved MAC, is answered with 404: the handler performs
  the lookup, writes the 404 header and one log line, and never enters the script selection,
  whatever custom script or chain URL the record carries. Nothing is written to the body.\<close>

theorem gate_refuses_with_not_found:
  assumes name: "path_Base P (URL_Path r) = ''auto.ipxe''"
    and split: "SplitHostPort P (RemoteAddr r) = Inr (host, port)"
    and gate: "(\<exists>err. Finder h (ParseIP P host) = Inl err)
             \<or> (\<exists>hw. Finder h (ParseIP P host) = Inr (Some hw)
                    \<and> \<not> HardwareAllowPXE (Hardware hw) (GetMAC hw (ParseIP P host)))"
  shows "status (HandlerFunc P h w r) = StatusNotFound
       \<and> written (HandlerFunc P h w r) = []
       \<and> (\<exists>log. is_log log \<and>
            HandlerFunc P h w r =
              [JobsTotal_Inc, JobsInProgress_Inc, NewTimer, ByIP (ParseIP P host),
               WriteHeader StatusNotFound, log, ObserveDuration, JobsInProgress_Dec])"
proof -
  from gate have "\<exists>log. is_log log \<and>
      serveAuto P h w r = [ByIP (ParseIP P host), WriteHeader StatusNotFound, log]"
    by (auto simp: serveAuto_def split Let_def)
  then obtain log where l: "is_log log"
    and s: "serveAuto P h w r = [ByIP (ParseIP P host), WriteHeader StatusNotFound, log]"
    by blast
  have t: "HandlerFunc P h w r =
      [JobsTotal_Inc, JobsInProgress_Inc, NewTimer, ByIP (ParseIP P host),
       WriteHeader StatusNotFound, log, ObserveDuration, JobsInProgress_Dec]"
    by (simp add: HandlerFunc_auto [OF name] s)
  have "status (HandlerFunc P h w r) = StatusNotFound"
    by (simp add: HandlerFunc_auto_facts(1) [OF name] s)
  moreover have "written (HandlerFunc P h w r) = []"
    using l by (cases log) (simp_all add: HandlerFunc_auto_facts(2) [OF name] s)
  ultimately show ?thesis using l t by blast
qed

text \<open>The machine whose flag is off has both custom fields set and still gets 404; so does
  the known client when the inventory is empty.\<close>

theorem gate_refuses_with_not_found_witness:
  "IPXEURL (Hardware lockedMachine) exMAC \<noteq> []
   \<and> IPXEScript (Hardware lockedMachine) exMAC \<noteq> []
   \<and> status (HandlerFunc go (exHandler lockedMachine) exWriter exRequestAuto) = StatusNotFound
   \<and> written (HandlerFunc go (exHandler lockedMachine) exWriter exRequestAuto) = []
   \<and> status (HandlerFunc go emptyHandler exWriter exRequestAuto) = StatusNotFound
   \<and> written (HandlerFunc go emptyHandler exWriter exRequestAuto) = []"
proof -
  have a: "\<not> HardwareAllowPXE (Hardware lockedMachine)
      (GetMAC lockedMachine (ParseIP go ''10.0.0.5''))"
    by code_simp
  have e: "Finder emptyHandler (ParseIP go ''10.0.0.5'') = Inl (External ''no hardware found'')"
    by (simp add: emptyHandler_def)
  have c: "IPXEURL (Hardware lockedMachine) exMAC \<noteq> []"
    "IPXEScript (Hardware lockedMachine) exMAC \<noteq> []"
    by code_simp+
  have g1: "(\<exists>err. Finder (exHandler lockedMachine) (ParseIP go ''10.0.0.5'') = Inl err)
      \<or> (\<exists>hw. Finder (exHandler lockedMachine) (ParseIP go ''10.0.0.5'') = Inr (Some hw)
            \<and> \<not> HardwareAllowPXE (Hardware hw) (GetMAC hw (ParseIP go ''10.0.0.5'')))"
    using ex_found [of lockedMachine] a by blast
  have g2: "(\<exists>err. Finder emptyHandler (ParseIP go ''10.0.0.5'') = Inl err)
      \<or> (\<exists>hw. Finder emptyHandler (ParseIP go ''10.0.0.5'') = Inr (Some hw)
            \<and> \<not> HardwareAllowPXE (Hardware hw) (GetMAC hw (ParseIP go ''10.0.0.5'')))"
    using e by blast
  from gate_refuses_with_not_found [OF ex_name ex_split g1, where w = exWriter]
       gate_refuses_with_not_found [OF ex_name ex_split g2, where w = exWriter] c
  show ?thesis by blast
qed

subsection \<open>The selector\<close>

text \<open>C2: for an authorized request (entrypoint name, a peer address that yields a host, a
  record found, allow flag true) the selector takes the custom script exactly when the record
  has a non-empty chain URL or a non-empty script body for the MAC it resolves from the
  client address, and the default script otherwise: the custom test, the name the switch
  sees, and the effects of the whole handler are the ones of the chosen flow.\<close>

theorem selector_custom_iff:
  assumes name: "path_Base P (URL_Path r) = ''auto.ipxe''"
    and split: "SplitHostPort P (RemoteAddr r) = Inr (host, port)"
    and found: "Finder h (ParseIP P host) = Inr (Some hw)"
    and allow: "HardwareAllowPXE (Hardware hw) (GetMAC hw (ParseIP P host))"
  shows "(let ip = IP_String P (ParseIP P host);
              mac = GetMAC hw (ParseIP P ip);
              custom = (IPXEURL (Hardware hw) mac \<noteq> [] \<or> IPXEScript (Hardware hw) mac \<noteq> [])
          in customScriptFound P (Some hw) ip = custom
           \<and> switchName P (Some hw) ip (path_Base P (URL_Path r)) =
               (if custom then ''custom.ipxe'' else ''auto.ipxe'')
           \<and> HandlerFunc P h w r =
               [JobsTotal_Inc, JobsInProgress_Inc, NewTimer, ByIP (ParseIP P host),
                SetAttributes ''boots.script_name'' ''auto.ipxe'']
               @ (if custom then
                    (case customScript P hw ip of
                       Inl err \<Rightarrow> scriptError err ''error with custom ipxe script'' ''custom.ipxe''
                     | Inr cs \<Rightarrow> writeScript w ''custom.ipxe'' cs)
                  else
                    (case defaultScript P h (Ctx_Span r) hw ip of
                       Inl err \<Rightarrow> scriptError err ''error with default ipxe script'' ''auto.ipxe''
                     | Inr s \<Rightarrow> writeScript w ''auto.ipxe'' s))
               @ [ObserveDuration, JobsInProgress_Dec])"
  by (auto simp: HandlerFunc_auto [OF name] serveAuto_authorized [OF split found allow] name
      serveBootScript_def switchName_def customScriptFound_def Let_def)

text \<open>The machine with a script body is sent to the custom flow, the machine without custom
  fields to the default flow.\<close>

theorem selector_custom_iff_witness:
  "path_Base go (URL_Path exRequestAuto) = ''auto.ipxe''
   \<and> SplitHostPort go (RemoteAddr exRequestAuto) = Inr (''10.0.0.5'', ''4711'')
   \<and> HardwareAllowPXE (Hardware scriptedMachine) (GetMAC scriptedMachine (ParseIP go ''10.0.0.5''))
   \<and> HardwareAllowPXE (Hardware plainMachine) (GetMAC plainMachine (ParseIP go ''10.0.0.5''))
   \<and> switchName go (Some scriptedMachine) ''10.0.0.5'' ''auto.ipxe'' = ''custom.ipxe''
   \<and> switchName go (Some plainMachine) ''10.0.0.5'' ''auto.ipxe'' = ''auto.ipxe''"
proof -
  have a1: "HardwareAllowPXE (Hardware scriptedMachine)
      (GetMAC scriptedMachine (ParseIP go ''10.0.0.5''))"
    by code_simp
  have a2: "HardwareAllowPXE (Hardware plainMachine) (GetMAC plainMachine (ParseIP go ''10.0.0.5''))"
    by code_simp
  have c1: "IPXEScript (Hardware scriptedMachine)
      (GetMAC scriptedMachine (ParseIP go ''10.0.0.5'')) \<noteq> []"
    by code_simp
  have c2: "IPXEURL (Hardware plainMachine) (GetMAC plainMachine (ParseIP go ''10.0.0.5'')) = []"
    "IPXEScript (Hardware plainMachine) (GetMAC plainMachine (ParseIP go ''10.0.0.5'')) = []"
    by code_simp+
  from selector_custom_iff [OF ex_name ex_split ex_found a1, where w = exWriter] c1
  have "switchName go (Some scriptedMachine) ''10.0.0.5'' ''auto.ipxe'' = ''custom.ipxe''"
    by (simp add: Let_def ex_ip ex_ip_string ex_name)
  moreover
  from selector_custom_iff [OF ex_name ex_split ex_found a2, where w = exWriter] c2
  have "switchName go (Some plainMachine) ''10.0.0.5'' ''auto.ipxe'' = ''auto.ipxe''"
    by (simp add: Let_def ex_ip ex_ip_string ex_name)
  ultimately show ?thesis
    using ex_name ex_split a1 a2 by simp
qed

subsection \<open>The custom flow\<close>

text \<open>C3: in the custom flow a non-empty chain URL decides the outcome, whatever the script
  body is. If it parses and its scheme is \<^verbatim>\<open>http\<close> or \<^verbatim>\<open>https\<close>, the chain is what
  is rendered (the script body is not passed on). If it does not parse, or its scheme is
  anything else (the empty scheme included), \<^verbatim>\<open>customScript\<close> returns an error, and
  \<^verbatim>\<open>serveBootScript\<close> answers 500, logs the error, sets the span status and writes no
  body.\<close>

theorem custom_chain_priority_and_rejection:
  assumes chain: "IPXEURL (Hardware hw) (GetMAC hw (ParseIP P ip)) = chain"
    and nonempty: "chain \<noteq> []"
  shows "(\<forall>u. url_Parse P chain = Inr u \<and> (Scheme u = ''http'' \<or> Scheme u = ''https'') \<longrightarrow>
            customScript P hw ip =
              GenerateTemplate P (CustomCtx \<lparr> Chain = Some u, Script = [] \<rparr>) CustomScript)
       \<and> (\<forall>err. url_Parse P chain = Inl err \<longrightarrow>
            customScript P hw ip = Inl (Wrap err ''invalid custom chain URL''))
       \<and> (\<forall>u. url_Parse P chain = Inr u \<and> Scheme u \<noteq> ''http'' \<and> Scheme u \<noteq> ''https'' \<longrightarrow>
            customScript P hw ip = Inl (Errorf ''invalid URL scheme: %v'' [Scheme u]))
       \<and> ((\<exists>err. url_Parse P chain = Inl err)
            \<or> (\<exists>u. url_Parse P chain = Inr u \<and> Scheme u \<noteq> ''http'' \<and> Scheme u \<noteq> ''https'') \<longrightarrow>
          (\<exists>e. customScript P hw ip = Inl e
             \<and> serveBootScript P h span w name ip (Some hw) =
                 [SetAttributes ''boots.script_name'' name,
                  WriteHeader StatusInternalServerError,
                  Error (Wrap e ''error with custom ipxe script'') ''error''
                    [(''script'', ''custom.ipxe'')],
                  SetStatus_Error (Wrap e ''error with custom ipxe script'')])
          \<and> status (serveBootScript P h span w name ip (Some hw)) = StatusInternalServerError
          \<and> written (serveBootScript P h span w name ip (Some hw)) = [])"
proof -
  have found: "customScriptFound P (Some hw) ip"
    using chain nonempty by (simp add: customScriptFound_def)
  have ok: "customScript P hw ip =
      GenerateTemplate P (CustomCtx \<lparr> Chain = Some u, Script = [] \<rparr>) CustomScript"
    if "url_Parse P chain = Inr u" "Scheme u = ''http'' \<or> Scheme u = ''https''" for u
    using that chain nonempty by (auto simp: customScript_def)
  have bad_parse: "customScript P hw ip = Inl (Wrap err ''invalid custom chain URL'')"
    if "url_Parse P chain = Inl err" for err
    using that chain nonempty by (simp add: customScript_def)
  have bad_scheme: "customScript P hw ip = Inl (Errorf ''invalid URL scheme: %v'' [Scheme u])"
    if "url_Parse P chain = Inr u" "Scheme u \<noteq> ''http''" "Scheme u \<noteq> ''https''" for u
    using that chain nonempty by (simp add: customScript_def)
  have fails: "\<exists>e. customScript P hw ip = Inl e"
    if "(\<exists>err. url_Parse P chain = Inl err)
        \<or> (\<exists>u. url_Parse P chain = Inr u \<and> Scheme u \<noteq> ''http'' \<and> Scheme u \<noteq> ''https'')"
    using that bad_parse bad_scheme by blast
  have resp: "status (serveBootScript P h span w name ip (Some hw)) = StatusInternalServerError
      \<and> written (serveBootScript P h span w name ip (Some hw)) = []"
    if "customScript P hw ip = Inl e" for e
    by (simp add: serveBootScript_custom_error [OF found that])
  show ?thesis
    using ok bad_parse bad_scheme fails resp serveBootScript_custom_error [OF found]
    by (intro conjI allI impI) blast+
qed

text \<open>A chain URL with scheme \<^verbatim>\<open>ftp\<close> next to a script body: the custom flow fails and the
  request gets 500 with no body. A chain URL that does not parse: the same. A chain URL with
  scheme \<^verbatim>\<open>https\<close> next to the same script body: the chain is served, not the body.\<close>

theorem custom_chain_priority_and_rejection_witness:
  "IPXEURL (Hardware ftpMachine) (GetMAC ftpMachine (ParseIP go ''10.0.0.5''))
     = ''ftp://boot.example/menu.ipxe''
   \<and> IPXEScript (Hardware ftpMachine) (GetMAC ftpMachine (ParseIP go ''10.0.0.5'')) = exScript
   \<and> url_Parse go ''ftp://boot.example/menu.ipxe''
       = Inr \<lparr> Scheme = ''ftp'', Rest = ''//boot.example/menu.ipxe'' \<rparr>
   \<and> customScript go ftpMachine ''10.0.0.5'' = Inl (Errorf ''invalid URL scheme: %v'' [''ftp''])
   \<and> status (serveBootScript go (exHandler ftpMachine) exSpan exWriter ''auto.ipxe'' ''10.0.0.5''
        (Some ftpMachine)) = StatusInternalServerError
   \<and> written (serveBootScript go (exHandler ftpMachine) exSpan exWriter ''auto.ipxe'' ''10.0.0.5''
        (Some ftpMachine)) = []
   \<and> status (HandlerFunc go (exHandler ftpMachine) exWriter exRequestAuto)
       = StatusInternalServerError
   \<and> url_Parse go '':menu.ipxe'' = Inl (Wrap (External ''missing protocol scheme'') ''parse'')
   \<and> customScript go brokenChainMachine ''10.0.0.5''
       = Inl (Wrap (Wrap (External ''missing protocol scheme'') ''parse'')
            ''invalid custom chain URL'')
   \<and> status (serveBootScript go (exHandler brokenChainMachine) exSpan exWriter ''auto.ipxe''
        ''10.0.0.5'' (Some brokenChainMachine)) = StatusInternalServerError
   \<and> written (serveBootScript go (exHandler brokenChainMachine) exSpan exWriter ''auto.ipxe''
        ''10.0.0.5'' (Some brokenChainMachine)) = []
   \<and> IPXEScript (Hardware chainMachine) (GetMAC chainMachine (ParseIP go ''10.0.0.5'')) = exScript
   \<and> customScript go chainMachine ''10.0.0.5''
       = Inr (exChainText \<lparr> Scheme = ''https'', Rest = ''//boot.example/menu.ipxe'' \<rparr>)"
proof -
  have c'': "IPXEURL (Hardware brokenChainMachine)
      (GetMAC brokenChainMachine (ParseIP go ''10.0.0.5'')) = '':menu.ipxe''"
    by code_simp
  have n'': "'':menu.ipxe'' \<noteq> []"
    by simp
  have u'': "url_Parse go '':menu.ipxe''
      = Inl (Wrap (External ''missing protocol scheme'') ''parse'')"
    by code_simp
  from custom_chain_priority_and_rejection [OF c'' n'', where h = "exHandler brokenChainMachine"
      and span = exSpan and w = exWriter and name = "''auto.ipxe''"] u''
  have broken: "customScript go brokenChainMachine ''10.0.0.5''
        = Inl (Wrap (Wrap (External ''missing protocol scheme'') ''parse'')
             ''invalid custom chain URL'')
      \<and> status (serveBootScript go (exHandler brokenChainMachine) exSpan exWriter ''auto.ipxe''
           ''10.0.0.5'' (Some brokenChainMachine)) = StatusInternalServerError
      \<and> written (serveBootScript go (exHandler brokenChainMachine) exSpan exWriter ''auto.ipxe''
           ''10.0.0.5'' (Some brokenChainMachine)) = []"
    by simp
  have c: "IPXEURL (Hardware ftpMachine) (GetMAC ftpMachine (ParseIP go ''10.0.0.5''))
      = ''ftp://boot.example/menu.ipxe''"
    by code_simp
  have b: "IPXEScript (Hardware ftpMachine) (GetMAC ftpMachine (ParseIP go ''10.0.0.5'')) = exScript"
    by code_simp
  have n: "''ftp://boot.example/menu.ipxe'' \<noteq> []"
    by simp
  have u: "url_Parse go ''ftp://boot.example/menu.ipxe''
      = Inr \<lparr> Scheme = ''ftp'', Rest = ''//boot.example/menu.ipxe'' \<rparr>"
    by code_simp
  have e: "status (HandlerFunc go (exHandler ftpMachine) exWriter exRequestAuto)
      = StatusInternalServerError"
    by code_simp
  have c': "IPXEURL (Hardware chainMachine) (GetMAC chainMachine (ParseIP go ''10.0.0.5''))
      = ''https://boot.example/menu.ipxe''"
    by code_simp
  have b': "IPXEScript (Hardware chainMachine) (GetMAC chainMachine (ParseIP go ''10.0.0.5''))
      = exScript"
    by code_simp
  have n': "''https://boot.example/menu.ipxe'' \<noteq> []"
    by simp
  have u': "url_Parse go ''https://boot.example/menu.ipxe''
      = Inr \<lparr> Scheme = ''https'', Rest = ''//boot.example/menu.ipxe'' \<rparr>"
    by code_simp
  from custom_chain_priority_and_rejection [OF c n, where h = "exHandler ftpMachine"
      and span = exSpan and w = exWriter and name = "''auto.ipxe''"] u
  have "customScript go ftpMachine ''10.0.0.5'' = Inl (Errorf ''invalid URL scheme: %v'' [''ftp''])
      \<and> status (serveBootScript go (exHandler ftpMachine) exSpan exWriter ''auto.ipxe''
           ''10.0.0.5'' (Some ftpMachine)) = StatusInternalServerError
      \<and> written (serveBootScript go (exHandler ftpMachine) exSpan exWriter ''auto.ipxe''
           ''10.0.0.5'' (Some ftpMachine)) = []"
    by simp
  moreover
  from custom_chain_priority_and_rejection [OF c' n', where h = "exHandler chainMachine"
      and span = exSpan and w = exWriter and name = "''auto.ipxe''"] u'
  have "customScript go chainMachine ''10.0.0.5''
      = Inr (exChainText \<lparr> Scheme = ''https'', Rest = ''//boot.example/menu.ipxe'' \<rparr>)"
    by (simp add: ex_renderer render_def)
  ultimately show ?thesis
    using c b u e b' u'' broken by simp
qed

text \<open>C6: when the record has no chain URL and a non-empty script body for the resolved MAC,
  the custom flow, with the renderer as the specification describes it, returns the stored
  script body unchanged, and \<^verbatim>\<open>serveBootScript\<close> writes exactly that text.\<close>

theorem custom_script_verbatim:
  assumes nochain: "IPXEURL (Hardware hw) (GetMAC hw (ParseIP P ip)) = []"
    and body: "IPXEScript (Hardware hw) (GetMAC hw (ParseIP P ip)) = script"
    and nonempty: "script \<noteq> []"
    and renderer: "GenerateTemplate P = render hookText chainText"
  shows "customScript P hw ip = Inr script
       \<and> written (serveBootScript P h span w name ip (Some hw)) = [script]
       \<and> (Write_err w = None \<longrightarrow>
            serveBootScript P h span w name ip (Some hw) =
              [SetAttributes ''boots.script_name'' name,
               SetAttributes ''ipxe-script'' script,
               Write script])"
proof -
  have found: "customScriptFound P (Some hw) ip"
    using body nonempty by (simp add: customScriptFound_def)
  have cs: "customScript P hw ip = Inr script"
    using nochain body nonempty by (simp add: customScript_def renderer render_def)
  have "serveBootScript P h span w name ip (Some hw) =
      SetAttributes ''boots.script_name'' name # writeScript w ''custom.ipxe'' script"
    using found cs by (simp add: serveBootScript_def switchName_def)
  then show ?thesis
    using cs by (simp add: writeScript_def split: option.splits)
qed

text \<open>The scenario of the specification: the script body \<^verbatim>\<open>#!ipxe\<close>, newline,
  \<^verbatim>\<open>exit\<close> and no chain URL; the client receives that text.\<close>

theorem custom_script_verbatim_witness:
  "IPXEURL (Hardware scriptedMachine) (GetMAC scriptedMachine (ParseIP go ''10.0.0.5'')) = []
   \<and> IPXEScript (Hardware scriptedMachine) (GetMAC scriptedMachine (ParseIP go ''10.0.0.5''))
       = exScript
   \<and> exScript \<noteq> []
   \<and> Write_err exWriter = None
   \<and> customScript go scriptedMachine ''10.0.0.5'' = Inr exScript
   \<and> written (serveBootScript go (exHandler scriptedMachine) exSpan exWriter ''auto.ipxe''
        ''10.0.0.5'' (Some scriptedMachine)) = [exScript]
   \<and> written (HandlerFunc go (exHandler scriptedMachine) exWriter exRequestAuto) = [exScript]"
proof -
  have c: "IPXEURL (Hardware scriptedMachine) (GetMAC scriptedMachine (ParseIP go ''10.0.0.5'')) = []"
    by code_simp
  have b: "IPXEScript (Hardware scriptedMachine) (GetMAC scriptedMachine (ParseIP go ''10.0.0.5''))
      = exScript"
    by code_simp
  have n: "exScript \<noteq> []"
    by code_simp
  have w: "Write_err exWriter = None"
    by code_simp
  have e: "written (HandlerFunc go (exHandler scriptedMachine) exWriter exRequestAuto) = [exScript]"
    by code_simp
  from custom_script_verbatim [OF c b n ex_renderer, where h = "exHandler scriptedMachine"
      and span = exSpan and w = exWriter and name = "''auto.ipxe''"]
  show ?thesis
    using c b n w e by simp
qed

text \<open>C8: when \<^verbatim>\<open>customScript\<close> runs with both the chain URL and the script body empty, it
  fails with the error whose message begins "no custom script or chain defined"; reached
  through \<^verbatim>\<open>serveBootScript\<close> under the name \<^verbatim>\<open>custom.ipxe\<close>, the request is answered
  with 500, the error is logged and set on the span, and no body is written.\<close>

theorem custom_fallback_error:
  assumes nochain: "IPXEURL (Hardware hw) (GetMAC hw (ParseIP P ip)) = []"
    and nobody: "IPXEScript (Hardware hw) (GetMAC hw (ParseIP P ip)) = []"
  shows "customScript P hw ip = Inl (New ''no custom script or chain defined in the hardware data'')
       \<and> prefix ''no custom script or chain defined''
            ''no custom script or chain defined in the hardware data''
       \<and> serveBootScript P h span w ''custom.ipxe'' ip (Some hw) =
           [SetAttributes ''boots.script_name'' ''custom.ipxe'',
            WriteHeader StatusInternalServerError,
            Error (Wrap (New ''no custom script or chain defined in the hardware data'')
                     ''error with custom ipxe script'') ''error'' [(''script'', ''custom.ipxe'')],
            SetStatus_Error (Wrap (New ''no custom script or chain defined in the hardware data'')
                     ''error with custom ipxe script'')]
       \<and> status (serveBootScript P h span w ''custom.ipxe'' ip (Some hw))
           = StatusInternalServerError
       \<and> written (serveBootScript P h span w ''custom.ipxe'' ip (Some hw)) = []"
proof -
  have notfound: "\<not> customScriptFound P (Some hw) ip"
    using nochain nobody by (simp add: customScriptFound_def)
  have cs: "customScript P hw ip
      = Inl (New ''no custom script or chain defined in the hardware data'')"
    using nochain nobody by (simp add: customScript_def)
  have t: "serveBootScript P h span w ''custom.ipxe'' ip (Some hw) =
      SetAttributes ''boots.script_name'' ''custom.ipxe'' #
      scriptError (New ''no custom script or chain defined in the hardware data'')
        ''error with custom ipxe script'' ''custom.ipxe''"
    using notfound cs by (simp add: serveBootScript_def switchName_def)
  show ?thesis
    using cs by (simp add: t scriptError_def)
qed

text \<open>The machine without custom fields, served under the name \<^verbatim>\<open>custom.ipxe\<close>.\<close>

theorem custom_fallback_error_witness:
  "IPXEURL (Hardware plainMachine) (GetMAC plainMachine (ParseIP go ''10.0.0.5'')) = []
   \<and> IPXEScript (Hardware plainMachine) (GetMAC plainMachine (ParseIP go ''10.0.0.5'')) = []
   \<and> customScript go plainMachine ''10.0.0.5''
       = Inl (New ''no custom script or chain defined in the hardware data'')
   \<and> status (serveBootScript go (exHandler plainMachine) exSpan exWriter ''custom.ipxe''
        ''10.0.0.5'' (Some plainMachine)) = StatusInternalServerError
   \<and> written (serveBootScript go (exHandler plainMachine) exSpan exWriter ''custom.ipxe''
        ''10.0.0.5'' (Some plainMachine)) = []"
proof -
  have c: "IPXEURL (Hardware plainMachine) (GetMAC plainMachine (ParseIP go ''10.0.0.5'')) = []"
    by code_simp
  have b: "IPXEScript (Hardware plainMachine) (GetMAC plainMachine (ParseIP go ''10.0.0.5'')) = []"
    by code_simp
  from custom_fallback_error [OF c b, where h = "exHandler plainMachine" and span = exSpan
      and w = exWriter]
  show ?thesis
    using c b by simp
qed

subsection \<open>The request classifier\<close>

text \<open>C4: a request whose path does not end in the name \<^verbatim>\<open>auto.ipxe\<close> is answered with 404
  and nothing else happens: the handler's effects are one log line and the 404 header; there
  is no lookup, no metric is touched, and no body is written.\<close>

theorem wrong_name_not_found:
  assumes "path_Base P (URL_Path r) \<noteq> ''auto.ipxe''"
  shows "HandlerFunc P h w r =
           [Info ''not found'' [(''path'', URL_Path r)], WriteHeader StatusNotFound]
       \<and> status (HandlerFunc P h w r) = StatusNotFound
       \<and> lookups (HandlerFunc P h w r) = []
       \<and> filter is_metric (HandlerFunc P h w r) = []
       \<and> written (HandlerFunc P h w r) = []
       \<and> filter is_log (HandlerFunc P h w r) = [Info ''not found'' [(''path'', URL_Path r)]]"
  using assms by (simp add: HandlerFunc_def)

text \<open>A request for another file from the known, authorized client.\<close>

theorem wrong_name_not_found_witness:
  "path_Base go (URL_Path (exRequest ''/boot/undionly.kpxe'' ''10.0.0.5:4711'')) \<noteq> ''auto.ipxe''
   \<and> status (HandlerFunc go (exHandler plainMachine) exWriter
        (exRequest ''/boot/undionly.kpxe'' ''10.0.0.5:4711'')) = StatusNotFound
   \<and> lookups (HandlerFunc go (exHandler plainMachine) exWriter
        (exRequest ''/boot/undionly.kpxe'' ''10.0.0.5:4711'')) = []
   \<and> filter is_metric (HandlerFunc go (exHandler plainMachine) exWriter
        (exRequest ''/boot/undionly.kpxe'' ''10.0.0.5:4711'')) = []"
proof -
  have n: "path_Base go (URL_Path (exRequest ''/boot/undionly.kpxe'' ''10.0.0.5:4711''))
      \<noteq> ''auto.ipxe''"
    by code_simp
  from wrong_name_not_found [OF n] n show ?thesis by blast
qed

text \<open>C7, as the code has it: for a request with the entrypoint name, a peer address that
  cannot be split into host and port is answered with 500, with one log line, no lookup and
  no body. Once the address splits, the host is parsed and the lookup is made with the
  result, whether or not the host is an IP address (an unparseable host reaches the finder
  as the nil address), and the lookup and the gate decide the response: a lookup error gives
  404, a record whose allow flag is false gives 404, and a record whose allow flag is true
  is handed to \<^verbatim>\<open>serveBootScript\<close> under the name \<^verbatim>\<open>auto.ipxe\<close> with the string
  form of the parsed address. (The handler has no check of the parsed address, so a 500 for
  an unparseable host does not hold.)\<close>

theorem peer_address_handling:
  assumes name: "path_Base P (URL_Path r) = ''auto.ipxe''"
  shows "(\<forall>err. SplitHostPort P (RemoteAddr r) = Inl err \<longrightarrow>
            HandlerFunc P h w r =
              [JobsTotal_Inc, JobsInProgress_Inc, NewTimer,
               WriteHeader StatusInternalServerError,
               Error (Wrap err ''splitting host:ip'') ''error parsing client address''
                 [(''client'', RemoteAddr r)],
               ObserveDuration, JobsInProgress_Dec]
          \<and> status (HandlerFunc P h w r) = StatusInternalServerError
          \<and> lookups (HandlerFunc P h w r) = []
          \<and> written (HandlerFunc P h w r) = [])
       \<and> (\<forall>host port. SplitHostPort P (RemoteAddr r) = Inr (host, port) \<longrightarrow>
            lookups (HandlerFunc P h w r) = [ParseIP P host]
          \<and> (\<forall>err. Finder h (ParseIP P host) = Inl err \<longrightarrow>
                HandlerFunc P h w r =
                  [JobsTotal_Inc, JobsInProgress_Inc, NewTimer, ByIP (ParseIP P host),
                   WriteHeader StatusNotFound,
                   Error err ''no job found for client address'' [(''client'', RemoteAddr r)],
                   ObserveDuration, JobsInProgress_Dec]
              \<and> status (HandlerFunc P h w r) = StatusNotFound
              \<and> written (HandlerFunc P h w r) = [])
          \<and> (\<forall>hw. Finder h (ParseIP P host) = Inr (Some hw)
                  \<and> \<not> HardwareAllowPXE (Hardware hw) (GetMAC hw (ParseIP P host)) \<longrightarrow>
                HandlerFunc P h w r =
                  [JobsTotal_Inc, JobsInProgress_Inc, NewTimer, ByIP (ParseIP P host),
                   WriteHeader StatusNotFound,
                   Info ''the hardware data for this machine, or lack there of, does not allow it to pxe; allow_pxe: false''
                     [(''client'', RemoteAddr r)],
                   ObserveDuration, JobsInProgress_Dec]
              \<and> status (HandlerFunc P h w r) = StatusNotFound
              \<and> written (HandlerFunc P h w r) = [])
          \<and> (\<forall>hw. Finder h (ParseIP P host) = Inr (Some hw)
                  \<and> HardwareAllowPXE (Hardware hw) (GetMAC hw (ParseIP P host)) \<longrightarrow>
                HandlerFunc P h w r =
                  [JobsTotal_Inc, JobsInProgress_Inc, NewTimer, ByIP (ParseIP P host)]
                  @ serveBootScript P h (Ctx_Span r) w ''auto.ipxe''
                      (IP_String P (ParseIP P host)) (Some hw)
                  @ [ObserveDuration, JobsInProgress_Dec]))"
proof -
  have nosplit: "HandlerFunc P h w r =
        [JobsTotal_Inc, JobsInProgress_Inc, NewTimer,
         WriteHeader StatusInternalServerError,
         Error (Wrap err ''splitting host:ip'') ''error parsing client address''
           [(''client'', RemoteAddr r)],
         ObserveDuration, JobsInProgress_Dec]
      \<and> status (HandlerFunc P h w r) = StatusInternalServerError
      \<and> lookups (HandlerFunc P h w r) = []
      \<and> written (HandlerFunc P h w r) = []"
    if "SplitHostPort P (RemoteAddr r) = Inl err" for err
    using that by (simp add: HandlerFunc_auto [OF name] serveAuto_def)
  have looked: "lookups (HandlerFunc P h w r) = [ParseIP P host]"
    if "SplitHostPort P (RemoteAddr r) = Inr (host, port)" for host port
    using that
    by (auto simp: HandlerFunc_auto_facts [OF name] serveAuto_def Let_def
        lookups_serveBootScript split: sum.splits option.splits)
  have nofind: "HandlerFunc P h w r =
        [JobsTotal_Inc, JobsInProgress_Inc, NewTimer, ByIP (ParseIP P host),
         WriteHeader StatusNotFound,
         Error err ''no job found for client address'' [(''client'', RemoteAddr r)],
         ObserveDuration, JobsInProgress_Dec]
      \<and> status (HandlerFunc P h w r) = StatusNotFound
      \<and> written (HandlerFunc P h w r) = []"
    if "SplitHostPort P (RemoteAddr r) = Inr (host, port)"
      and "Finder h (ParseIP P host) = Inl err" for host port err
    using that by (simp add: HandlerFunc_auto [OF name] serveAuto_def Let_def)
  have refused: "HandlerFunc P h w r =
        [JobsTotal_Inc, JobsInProgress_Inc, NewTimer, ByIP (ParseIP P host),
         WriteHeader StatusNotFound,
         Info ''the hardware data for this machine, or lack there of, does not allow it to pxe; allow_pxe: false''
           [(''client'', RemoteAddr r)],
         ObserveDuration, JobsInProgress_Dec]
      \<and> status (HandlerFunc P h w r) = StatusNotFound
      \<and> written (HandlerFunc P h w r) = []"
    if "SplitHostPort P (RemoteAddr r) = Inr (host, port)"
      and "Finder h (ParseIP P host) = Inr (Some hw)"
      and "\<not> HardwareAllowPXE (Hardware hw) (GetMAC hw (ParseIP P host))" for host port hw
    using that by (simp add: HandlerFunc_auto [OF name] serveAuto_def Let_def)
  have served: "HandlerFunc P h w r =
        [JobsTotal_Inc, JobsInProgress_Inc, NewTimer, ByIP (ParseIP P host)]
        @ serveBootScript P h (Ctx_Span r) w ''auto.ipxe''
            (IP_String P (ParseIP P host)) (Some hw)
        @ [ObserveDuration, JobsInProgress_Dec]"
    if "SplitHostPort P (RemoteAddr r) = Inr (host, port)"
      and "Finder h (ParseIP P host) = Inr (Some hw)"
      and "HardwareAllowPXE (Hardware hw) (GetMAC hw (ParseIP P host))" for host port hw
    using that by (simp add: HandlerFunc_auto [OF name] serveAuto_authorized [OF that] name)
  show ?thesis
    using nosplit looked nofind refused served
    by (intro conjI allI impI) blast+
qed

text \<open>A peer address without a port gets 500 and no lookup. The peer \<^verbatim>\<open>bogus:80\<close>, whose
  host is no address, gets a lookup with the nil address: with an empty inventory the
  answer is 404, with an inventory that answers every address the custom script is served.
  The known client gets 404 when its flag is off.\<close>

theorem peer_address_handling_witness:
  "path_Base go (URL_Path exRequestNoPort) = ''auto.ipxe''
   \<and> SplitHostPort go (RemoteAddr exRequestNoPort) = Inl (External ''missing port in address'')
   \<and> status (HandlerFunc go emptyHandler exWriter exRequestNoPort) = StatusInternalServerError
   \<and> lookups (HandlerFunc go emptyHandler exWriter exRequestNoPort) = []
   \<and> SplitHostPort go (RemoteAddr exRequestBogus) = Inr (''bogus'', ''80'')
   \<and> ParseIP go ''bogus'' = []
   \<and> lookups (HandlerFunc go emptyHandler exWriter exRequestBogus) = [[]]
   \<and> status (HandlerFunc go emptyHandler exWriter exRequestBogus) = StatusNotFound
   \<and> lookups (HandlerFunc go catchAllHandler exWriter exRequestBogus) = [[]]
   \<and> status (HandlerFunc go catchAllHandler exWriter exRequestBogus) = StatusOK
   \<and> written (HandlerFunc go catchAllHandler exWriter exRequestBogus) = [exScript]
   \<and> status (HandlerFunc go (exHandler lockedMachine) exWriter exRequestAuto) = StatusNotFound"
proof -
  have n1: "path_Base go (URL_Path exRequestNoPort) = ''auto.ipxe''"
    by code_simp
  have s1: "SplitHostPort go (RemoteAddr exRequestNoPort)
      = Inl (External ''missing port in address'')"
    by code_simp
  have n2: "path_Base go (URL_Path exRequestBogus) = ''auto.ipxe''"
    by code_simp
  have s2: "SplitHostPort go (RemoteAddr exRequestBogus) = Inr (''bogus'', ''80'')"
    by code_simp
  have p2: "ParseIP go ''bogus'' = []"
    by code_simp
  have f2: "Finder emptyHandler (ParseIP go ''bogus'') = Inl (External ''no hardware found'')"
    by (simp add: emptyHandler_def)
  have f3: "Finder catchAllHandler (ParseIP go ''bogus'') = Inr (Some anyMachine)"
    by (simp add: catchAllHandler_def)
  have a3: "HardwareAllowPXE (Hardware anyMachine) (GetMAC anyMachine (ParseIP go ''bogus''))"
    by code_simp
  have b3: "serveBootScript go catchAllHandler (Ctx_Span exRequestBogus) exWriter ''auto.ipxe''
      (IP_String go []) (Some anyMachine) =
      [SetAttributes ''boots.script_name'' ''auto.ipxe'',
       SetAttributes ''ipxe-script'' exScript,
       Write exScript]"
    by code_simp
  have a4: "\<not> HardwareAllowPXE (Hardware lockedMachine)
      (GetMAC lockedMachine (ParseIP go ''10.0.0.5''))"
    by code_simp
  from peer_address_handling [OF n1, where h = emptyHandler and w = exWriter] s1
  have r1: "status (HandlerFunc go emptyHandler exWriter exRequestNoPort) = StatusInternalServerError
      \<and> lookups (HandlerFunc go emptyHandler exWriter exRequestNoPort) = []"
    by simp
  from peer_address_handling [OF n2, where h = emptyHandler and w = exWriter] s2 f2
  have r2: "lookups (HandlerFunc go emptyHandler exWriter exRequestBogus) = [ParseIP go ''bogus'']
      \<and> status (HandlerFunc go emptyHandler exWriter exRequestBogus) = StatusNotFound"
    by simp
  from peer_address_handling [OF n2, where h = catchAllHandler and w = exWriter] s2 f3 a3
  have "lookups (HandlerFunc go catchAllHandler exWriter exRequestBogus) = [ParseIP go ''bogus'']
      \<and> HandlerFunc go catchAllHandler exWriter exRequestBogus =
          [JobsTotal_Inc, JobsInProgress_Inc, NewTimer, ByIP (ParseIP go ''bogus'')]
          @ serveBootScript go catchAllHandler (Ctx_Span exRequestBogus) exWriter ''auto.ipxe''
              (IP_String go (ParseIP go ''bogus'')) (Some anyMachine)
          @ [ObserveDuration, JobsInProgress_Dec]"
    by (simp add: lookups_append lookups_serveBootScript)
  then have r3: "lookups (HandlerFunc go catchAllHandler exWriter exRequestBogus) = [[]]
      \<and> status (HandlerFunc go catchAllHandler exWriter exRequestBogus) = StatusOK
      \<and> written (HandlerFunc go catchAllHandler exWriter exRequestBogus) = [exScript]"
    by (simp add: p2 b3)
  from peer_address_handling [OF ex_name, where h = "exHandler lockedMachine" and w = exWriter]
    ex_split ex_found [of lockedMachine] a4
  have r4: "status (HandlerFunc go (exHandler lockedMachine) exWriter exRequestAuto) = StatusNotFound"
    by simp
  show ?thesis
    using n1 s1 s2 p2 r1 r2 r3 r4 by simp
qed

text \<open>The peer \<^verbatim>\<open>bogus:80\<close> asks for the entrypoint: the address splits, the host is no IP
  address, and yet the lookup is made (with the nil address) and the answer is the 404 of
  the failed lookup, not 500.\<close>

theorem unparsable_host_counterexample:
  "path_Base go (URL_Path exRequestBogus) = ''auto.ipxe''
   \<and> SplitHostPort go (RemoteAddr exRequestBogus) = Inr (''bogus'', ''80'')
   \<and> ParseIP go ''bogus'' = []
   \<and> lookups (HandlerFunc go emptyHandler exWriter exRequestBogus) = [[]]
   \<and> status (HandlerFunc go emptyHandler exWriter exRequestBogus) = StatusNotFound
   \<and> status (HandlerFunc go emptyHandler exWriter exRequestBogus) \<noteq> StatusInternalServerError"
  by code_simp

text \<open>C10: \<^verbatim>\<open>HandlerFunc\<close> calls \<^verbatim>\<open>serveBootScript\<close> only with the name \<^verbatim>\<open>auto.ipxe\<close>
  (the span attribute that opens \<^verbatim>\<open>serveBootScript\<close> never carries another name); with
  that name the switch sees \<^verbatim>\<open>auto.ipxe\<close> or, after the custom rewrite, \<^verbatim>\<open>custom.ipxe\<close>;
  so the "boot script not found" branch of the switch is never taken: its log line does not
  occur among the handler's effects.\<close>

theorem switch_default_unreachable:
  "switchName P hw ip ''auto.ipxe'' \<in> {''auto.ipxe'', ''custom.ipxe''}
   \<and> (\<forall>n. SetAttributes ''boots.script_name'' n \<in> set (HandlerFunc P h w r) \<longrightarrow> n = ''auto.ipxe'')
   \<and> (\<forall>n kv. Error (Errorf ''boot script %q not found'' [n]) ''error'' kv
         \<notin> set (HandlerFunc P h w r))"
  by (auto simp: switchName_def HandlerFunc_def serveAuto_def serveBootScript_def Let_def
      scriptError_def writeScript_def split: sum.splits option.splits if_splits)

text \<open>An authorized request that is rewritten to the custom script.\<close>

theorem switch_default_unreachable_witness:
  "SetAttributes ''boots.script_name'' ''auto.ipxe''
     \<in> set (HandlerFunc go (exHandler scriptedMachine) exWriter exRequestAuto)
   \<and> switchName go (Some scriptedMachine) ''10.0.0.5'' ''auto.ipxe''
       \<in> {''auto.ipxe'', ''custom.ipxe''}
   \<and> Error (Errorf ''boot script %q not found'' [''auto.ipxe'']) ''error''
        [(''script'', ''auto.ipxe'')]
       \<notin> set (HandlerFunc go (exHandler scriptedMachine) exWriter exRequestAuto)"
proof -
  have a: "SetAttributes ''boots.script_name'' ''auto.ipxe''
     \<in> set (HandlerFunc go (exHandler scriptedMachine) exWriter exRequestAuto)"
    by code_simp
  from switch_default_unreachable [where P = go and hw = "Some scriptedMachine"
      and ip = "''10.0.0.5''" and h = "exHandler scriptedMachine" and w = exWriter
      and r = exRequestAuto]
  show ?thesis
    using a by blast
qed

subsection \<open>The default flow\<close>

text \<open>C5: the context built by the default flow, which is what \<^verbatim>\<open>defaultScript\<close> hands
  to the renderer, has as architecture the record's architecture when that is non-empty and
  \<^verbatim>\<open>x86_64\<close> when it is empty (so it is never empty), and as worker identifier the
  instance's ID when there is an instance with a non-empty ID and the string form of the MAC
  otherwise.\<close>

theorem default_context_arch_and_worker:
  "(let mac = GetMAC hw (ParseIP P ip);
        arch = HardwareArch (Hardware hw) mac;
        c = defaultHook P h span hw ip
    in defaultScript P h span hw ip = GenerateTemplate P (HookCtx c) HookScript
     \<and> (arch \<noteq> [] \<longrightarrow> Arch c = arch)
     \<and> (arch = [] \<longrightarrow> Arch c = ''x86_64'')
     \<and> Arch c \<noteq> []
     \<and> (\<forall>i. Instance hw = Some i \<and> ID i \<noteq> [] \<longrightarrow> WorkerID c = ID i)
     \<and> (Instance hw = None \<or> (\<exists>i. Instance hw = Some i \<and> ID i = []) \<longrightarrow>
          WorkerID c = HardwareAddr_String P mac))"
  by (auto simp: defaultScript_def defaultHook_def Let_def split: option.splits)

text \<open>The scenario of the specification (architecture empty, instance identifier empty), and
  a machine with an architecture and an instance identifier.\<close>

theorem default_context_arch_and_worker_witness:
  "HardwareArch (Hardware plainMachine) (GetMAC plainMachine (ParseIP go ''10.0.0.5'')) = []
   \<and> Instance plainMachine = Some \<lparr> ID = [] \<rparr>
   \<and> HardwareAddr_String go (GetMAC plainMachine (ParseIP go ''10.0.0.5'')) = ''aa:bb:cc:dd:ee:ff''
   \<and> Arch (defaultHook go (exHandler plainMachine) exSpan plainMachine ''10.0.0.5'') = ''x86_64''
   \<and> WorkerID (defaultHook go (exHandler plainMachine) exSpan plainMachine ''10.0.0.5'')
       = ''aa:bb:cc:dd:ee:ff''
   \<and> HardwareArch (Hardware scriptedMachine) (GetMAC scriptedMachine (ParseIP go ''10.0.0.5''))
       = ''aarch64''
   \<and> Instance scriptedMachine = Some \<lparr> ID = ''worker-7'' \<rparr>
   \<and> Arch (defaultHook go (exHandler scriptedMachine) exSpan scriptedMachine ''10.0.0.5'')
       = ''aarch64''
   \<and> WorkerID (defaultHook go (exHandler scriptedMachine) exSpan scriptedMachine ''10.0.0.5'')
       = ''worker-7''"
proof -
  have a1: "HardwareArch (Hardware plainMachine) (GetMAC plainMachine (ParseIP go ''10.0.0.5'')) = []"
    by code_simp
  have i1: "Instance plainMachine = Some \<lparr> ID = [] \<rparr>"
    by code_simp
  have m1: "HardwareAddr_String go (GetMAC plainMachine (ParseIP go ''10.0.0.5''))
      = ''aa:bb:cc:dd:ee:ff''"
    by code_simp
  have a2: "HardwareArch (Hardware scriptedMachine)
      (GetMAC scriptedMachine (ParseIP go ''10.0.0.5'')) = ''aarch64''"
    by code_simp
  have i2: "Instance scriptedMachine = Some \<lparr> ID = ''worker-7'' \<rparr>"
    by code_simp
  from default_context_arch_and_worker [where hw = plainMachine and P = go
      and ip = "''10.0.0.5''" and h = "exHandler plainMachine" and span = exSpan] a1 i1 m1
  have "Arch (defaultHook go (exHandler plainMachine) exSpan plainMachine ''10.0.0.5'') = ''x86_64''
      \<and> WorkerID (defaultHook go (exHandler plainMachine) exSpan plainMachine ''10.0.0.5'')
          = ''aa:bb:cc:dd:ee:ff''"
    by (simp add: Let_def)
  moreover
  from default_context_arch_and_worker [where hw = scriptedMachine and P = go
      and ip = "''10.0.0.5''" and h = "exHandler scriptedMachine" and span = exSpan] a2 i2
  have "Arch (defaultHook go (exHandler scriptedMachine) exSpan scriptedMachine ''10.0.0.5'')
          = ''aarch64''
      \<and> WorkerID (defaultHook go (exHandler scriptedMachine) exSpan scriptedMachine ''10.0.0.5'')
          = ''worker-7''"
    by (simp add: Let_def)
  ultimately show ?thesis
    using a1 i1 m1 a2 i2 by simp
qed

end
